theory Spec2Isabelle
  imports Complex_Main "HOL-Library.Word" "HOL-Library.Multiset"
begin

section \<open>JavaScript failures as values\<close>

text \<open>
  A thrown JavaScript exception is the left summand of a result. \<open>andThen\<close> is the
  sequencing of two statements: the second runs only when the first did not throw.
\<close>

datatype js_error = RangeError | TypeError | ErrorMsg string

definition andThen :: "js_error + 'a \<Rightarrow> ('a \<Rightarrow> js_error + 'b) \<Rightarrow> js_error + 'b" where
  "andThen r f = (case r of Inl e \<Rightarrow> Inl e | Inr x \<Rightarrow> f x)"

section \<open>WaveEncoder: \<open>encodeWav\<close> and \<open>floatTo16BitPCM\<close> (ChatInterface.jsx)\<close>

text \<open>
  The \<open>ArrayBuffer\<close> behind the \<open>DataView\<close> is a list of bytes. Every \<open>DataView\<close>
  setter checks its range and throws \<open>RangeError\<close> outside it; inside, it stores the
  value reduced modulo the width of the field (\<open>ToUint8\<close>, \<open>ToUint16\<close>,
  \<open>ToUint32\<close>, \<open>ToInt16\<close>), low byte first when \<open>littleEndian\<close> is true.
  Lengths, the sample rate and the channel count are natural numbers (the spec's
  positive integers).
\<close>

type_synonym byte = "8 word"

definition setUint8 :: "byte list \<Rightarrow> nat \<Rightarrow> nat \<Rightarrow> js_error + byte list" where
  "setUint8 view off v =
     (if off + 1 \<le> length view then Inr (view[off := of_nat v]) else Inl RangeError)"

definition setUint16 :: "byte list \<Rightarrow> nat \<Rightarrow> nat \<Rightarrow> bool \<Rightarrow> js_error + byte list" where
  "setUint16 view off v littleEndian =
     (if off + 2 \<le> length view
      then Inr (if littleEndian
                then view[off := of_nat v, off + 1 := of_nat (v div 256)]
                else view[off := of_nat (v div 256), off + 1 := of_nat v])
      else Inl RangeError)"

definition setUint32 :: "byte list \<Rightarrow> nat \<Rightarrow> nat \<Rightarrow> bool \<Rightarrow> js_error + byte list" where
  "setUint32 view off v littleEndian =
     (if off + 4 \<le> length view
      then Inr (if littleEndian
                then view[off := of_nat v, off + 1 := of_nat (v div 256),
                          off + 2 := of_nat (v div 65536), off + 3 := of_nat (v div 16777216)]
                else view[off := of_nat (v div 16777216), off + 1 := of_nat (v div 65536),
                          off + 2 := of_nat (v div 256), off + 3 := of_nat v])
      else Inl RangeError)"

text \<open>
  A JavaScript number, and an element of a \<open>Float32Array\<close>: a finite value, an
  infinity or NaN. A finite sample is the real number the 32-bit float denotes (negative
  zero is zero: the code never tells them apart). The two products of
  \<open>floatTo16BitPCM\<close> are exact in double precision on such a value (a 24-bit
  significand times a 15-bit or a power-of-two factor), so real arithmetic is what the
  code computes. \<open>Math.min\<close> and \<open>Math.max\<close> return NaN when an argument is NaN; a
  comparison with NaN is false.
\<close>

datatype jsnum = Finite real | PosInf | NegInf | NaN

fun mathMin :: "jsnum \<Rightarrow> jsnum \<Rightarrow> jsnum" where
  "mathMin NaN b = NaN"
| "mathMin a NaN = NaN"
| "mathMin NegInf b = NegInf"
| "mathMin a NegInf = NegInf"
| "mathMin PosInf b = b"
| "mathMin a PosInf = a"
| "mathMin (Finite x) (Finite y) = Finite (min x y)"

fun mathMax :: "jsnum \<Rightarrow> jsnum \<Rightarrow> jsnum" where
  "mathMax NaN b = NaN"
| "mathMax a NaN = NaN"
| "mathMax PosInf b = PosInf"
| "mathMax a PosInf = PosInf"
| "mathMax NegInf b = b"
| "mathMax a NegInf = a"
| "mathMax (Finite x) (Finite y) = Finite (max x y)"

fun jsLess :: "jsnum \<Rightarrow> jsnum \<Rightarrow> bool" where
  "jsLess NaN b = False"
| "jsLess a NaN = False"
| "jsLess PosInf b = False"
| "jsLess a NegInf = False"
| "jsLess NegInf b = True"
| "jsLess a PosInf = True"
| "jsLess (Finite x) (Finite y) = (x < y)"

text \<open>
  Multiplication: an infinity times zero is NaN, otherwise the sign rule decides.
\<close>

fun jsTimes :: "jsnum \<Rightarrow> jsnum \<Rightarrow> jsnum" where
  "jsTimes NaN b = NaN"
| "jsTimes a NaN = NaN"
| "jsTimes (Finite x) (Finite y) = Finite (x * y)"
| "jsTimes (Finite x) PosInf = (if x = 0 then NaN else if 0 < x then PosInf else NegInf)"
| "jsTimes (Finite x) NegInf = (if x = 0 then NaN else if 0 < x then NegInf else PosInf)"
| "jsTimes PosInf (Finite y) = (if y = 0 then NaN else if 0 < y then PosInf else NegInf)"
| "jsTimes NegInf (Finite y) = (if y = 0 then NaN else if 0 < y then NegInf else PosInf)"
| "jsTimes PosInf PosInf = PosInf"
| "jsTimes PosInf NegInf = NegInf"
| "jsTimes NegInf PosInf = NegInf"
| "jsTimes NegInf NegInf = PosInf"

text \<open>
  \<open>setInt16\<close> converts its argument with \<open>ToInt16\<close>: NaN and the infinities become 0,
  a finite value is truncated towards zero; the two bytes stored are that integer modulo
  \<open>2^16\<close>.
\<close>

definition js_truncate :: "real \<Rightarrow> int" where
  "js_truncate x = (if x < 0 then \<lceil>x\<rceil> else \<lfloor>x\<rfloor>)"

definition toInteger :: "jsnum \<Rightarrow> int" where
  "toInteger v = (case v of Finite x \<Rightarrow> js_truncate x | _ \<Rightarrow> 0)"

definition setInt16 :: "byte list \<Rightarrow> nat \<Rightarrow> jsnum \<Rightarrow> bool \<Rightarrow> js_error + byte list" where
  "setInt16 view off v littleEndian =
     (let i = toInteger v in
      if off + 2 \<le> length view
      then Inr (if littleEndian
                then view[off := of_int i, off + 1 := of_int (i div 256)]
                else view[off := of_int (i div 256), off + 1 := of_int i])
      else Inl RangeError)"

text \<open>
  \<^verbatim>\<open>const s = Math.max(-1, Math.min(1, input[i]));
  output.setInt16(offset, s < 0 ? s * 0x8000 : s * 0x7fff, true);\<close>
\<close>

definition pcmScaled :: "jsnum \<Rightarrow> jsnum" where
  "pcmScaled x =
     (let s = mathMax (Finite (- 1)) (mathMin (Finite 1) x)
      in if jsLess s (Finite 0) then jsTimes s (Finite 32768) else jsTimes s (Finite 32767))"

fun floatTo16BitPCM :: "byte list \<Rightarrow> nat \<Rightarrow> jsnum list \<Rightarrow> js_error + byte list" where
  "floatTo16BitPCM output offset [] = Inr output"
| "floatTo16BitPCM output offset (x # input) =
     andThen (setInt16 output offset (pcmScaled x) True)
       (\<lambda>output'. floatTo16BitPCM output' (offset + 2) input)"

fun writeString :: "byte list \<Rightarrow> nat \<Rightarrow> string \<Rightarrow> js_error + byte list" where
  "writeString view offset [] = Inr view"
| "writeString view offset (c # string) =
     andThen (setUint8 view offset (of_char c))
       (\<lambda>view'. writeString view' (offset + 1) string)"

record blob =
  blob_bytes :: "byte list"
  blob_type :: string

definition encodeWav :: "jsnum list \<Rightarrow> nat \<Rightarrow> nat \<Rightarrow> js_error + blob" where
  "encodeWav samples sampleRate numChannels =
     (let bytesPerSample = 2;
          blockAlign = numChannels * bytesPerSample;
          buffer = replicate (44 + length samples * bytesPerSample) (0 :: byte)
      in
      andThen (writeString buffer 0 ''RIFF'') (\<lambda>view.
      andThen (setUint32 view 4 (36 + length samples * bytesPerSample) True) (\<lambda>view.
      andThen (writeString view 8 ''WAVE'') (\<lambda>view.
      andThen (writeString view 12 ''fmt '') (\<lambda>view.
      andThen (setUint32 view 16 16 True) (\<lambda>view.
      andThen (setUint16 view 20 1 True) (\<lambda>view.
      andThen (setUint16 view 22 numChannels True) (\<lambda>view.
      andThen (setUint32 view 24 sampleRate True) (\<lambda>view.
      andThen (setUint32 view 28 (sampleRate * blockAlign) True) (\<lambda>view.
      andThen (setUint16 view 32 blockAlign True) (\<lambda>view.
      andThen (setUint16 view 34 16 True) (\<lambda>view.
      andThen (writeString view 36 ''data'') (\<lambda>view.
      andThen (setUint32 view 40 (length samples * bytesPerSample) True) (\<lambda>view.
      andThen (floatTo16BitPCM view 44 samples) (\<lambda>view.
      Inr \<lparr>blob_bytes = view,  blob_type = ''audio/wav''\<rparr>)))))))))))))))"

text \<open>
  The readers a conformant decoder applies to the container: little-endian unsigned
  16- and 32-bit fields and the little-endian two's complement 16-bit sample.
\<close>

definition getUint16 :: "byte list \<Rightarrow> nat \<Rightarrow> nat" where
  "getUint16 view off = unat (view ! off) + 256 * unat (view ! (off + 1))"

definition getUint32 :: "byte list \<Rightarrow> nat \<Rightarrow> nat" where
  "getUint32 view off =
     unat (view ! off) + 256 * unat (view ! (off + 1)) + 65536 * unat (view ! (off + 2))
       + 16777216 * unat (view ! (off + 3))"

definition getInt16 :: "byte list \<Rightarrow> nat \<Rightarrow> int" where
  "getInt16 view off =
     (let u = int (getUint16 view off) in if u < 32768 then u else u - 65536)"

text \<open>
  Closed forms used in the proofs: the bytes a little-endian setter stores, the two
  bytes of one sample, and the 44 bytes of the header.
\<close>

definition le16 :: "nat \<Rightarrow> byte list" where
  "le16 v = [of_nat v, of_nat (v div 256)]"
definition le32 :: "nat \<Rightarrow> byte list" where
  "le32 v = [of_nat v, of_nat (v div 256), of_nat (v div 65536), of_nat (v div 16777216)]"
definition pcmBytes :: "jsnum \<Rightarrow> byte list" where
  "pcmBytes x = [of_int (toInteger (pcmScaled x)), of_int (toInteger (pcmScaled x) div 256)]"
definition wavHeader :: "nat \<Rightarrow> nat \<Rightarrow> nat \<Rightarrow> byte list" where
  "wavHeader n sampleRate numChannels =
     [82, 73, 70, 70] @ le32 (36 + n * 2) @ [87, 65, 86, 69] @ [102, 109, 116, 32] @ le32 16
       @ le16 1 @ le16 numChannels @ le32 sampleRate @ le32 (sampleRate * (numChannels * 2))
       @ le16 (numChannels * 2) @ le16 16 @ [100, 97, 116, 97] @ le32 (n * 2)"

section \<open>Data model (App.jsx, localConversations.js)\<close>

text \<open>
  A payload of the remote service (the \<open>data\<close> and \<open>metadata\<close> of an event) is a JSON
  value. A field of a JavaScript object that may be missing is an option: \<open>None\<close> is
  \<open>undefined\<close>, \<open>Some JNull\<close> is \<open>null\<close>.
\<close>

datatype json = JNull | JBool bool | JNum int | JStr string | JArr "json list"
  | JObj "(string \<times> json) list"

text \<open>
  A message object. The code never looks at \<open>role\<close> when it updates a message, so one
  record carries both variants: the user message \<open>{role, content}\<close> has no stage field
  and no \<open>loading\<close> object; the assistant message has them all. A loading flag that is
  missing reads as \<open>False\<close>.
\<close>

record loading_flags =
  l_clarification :: bool
  l_stage1 :: bool
  l_stage2 :: bool
  l_stage3 :: bool

record message =
  m_role :: string
  m_content :: "string option"
  m_clarification :: "json option"
  m_stage1 :: "json option"
  m_stage2 :: "json option"
  m_stage3 :: "json option"
  m_metadata :: "json option"
  m_loading :: "loading_flags option"

text \<open>
  The objects the store writes and reads: a conversation \<open>{id, created_at, title,
  messages}\<close> and an index entry \<open>{id, created_at, title, message_count}\<close> are objects
  with some of five fields. \<open>localStorage\<close> maps a key to a string. A stored string is
  either one \<open>JSON.parse\<close> rejects (\<open>NotJson\<close>, the empty string among them) or the JSON
  text of a value, which is identified with that value: \<open>JSON.parse\<close> after
  \<open>JSON.stringify\<close> is the identity on these values.
\<close>

record jsobject =
  o_id :: "string option"
  o_created_at :: "string option"
  o_title :: "string option"
  o_messages :: "message list option"
  o_message_count :: "nat option"

type_synonym conversation = jsobject

datatype jsval = VNull | VBool bool | VNum int | VStr string | VArray "jsval list"
  | VObject jsobject

datatype stored = NotJson string | Json jsval

type_synonym localStorage = "string \<Rightarrow> stored option"

text \<open>
  What the platform supplies: the collation of \<open>String.prototype.localeCompare\<close>, the
  reading of the clock behind \<open>nowIso\<close>, and \<open>JSON.parse\<close> on the text of a stream
  line (\<open>None\<close> when it throws).
\<close>

record platform =
  localeCompare :: "string \<Rightarrow> string \<Rightarrow> int"
  nowIso :: string
  jsonParse :: "string \<Rightarrow> json option"

definition INDEX_KEY :: string where
  "INDEX_KEY = ''llmc:index:v1''"

definition CONV_PREFIX :: string where
  "CONV_PREFIX = ''llmc:conv:v1:''"

definition convKey :: "string \<Rightarrow> string" where
  "convKey ident = CONV_PREFIX @ ident"

text \<open>\<^verbatim>\<open>try { return JSON.parse(value); } catch { return fallback; }\<close>\<close>

definition safeJsonParse :: "stored \<Rightarrow> jsval \<Rightarrow> jsval" where
  "safeJsonParse raw fallback = (case raw of NotJson s \<Rightarrow> fallback | Json v \<Rightarrow> v)"

text \<open>
  \<^verbatim>\<open>const raw = localStorage.getItem(INDEX_KEY);
  const idx = raw ? safeJsonParse(raw, []) : [];
  return Array.isArray(idx) ? idx : [];\<close>
  The only falsy string is the empty one.
\<close>

definition getIndex :: "localStorage \<Rightarrow> jsval list" where
  "getIndex ls =
     (let idx = (case ls INDEX_KEY of
                   None \<Rightarrow> VArray []
                 | Some raw \<Rightarrow> if raw = NotJson [] then VArray [] else safeJsonParse raw (VArray []))
      in case idx of VArray entries \<Rightarrow> entries | _ \<Rightarrow> [])"

definition setIndex :: "localStorage \<Rightarrow> jsval list \<Rightarrow> localStorage" where
  "setIndex ls index = ls(INDEX_KEY \<mapsto> Json (VArray index))"

text \<open>
  Reading a property of an array element: of \<open>null\<close> it throws \<open>TypeError\<close>, of a
  boolean, number, string or array it is \<open>undefined\<close>. \<open>String(undefined)\<close> is the text
  \<open>undefined\<close>.
\<close>

definition propertyId :: "jsval \<Rightarrow> js_error + string option" where
  "propertyId c = (case c of VNull \<Rightarrow> Inl TypeError | VObject ob \<Rightarrow> Inr (o_id ob) | _ \<Rightarrow> Inr None)"

definition propertyCreatedAt :: "jsval \<Rightarrow> js_error + string option" where
  "propertyCreatedAt c =
     (case c of VNull \<Rightarrow> Inl TypeError | VObject ob \<Rightarrow> Inr (o_created_at ob) | _ \<Rightarrow> Inr None)"

definition toString :: "string option \<Rightarrow> string" where
  "toString s = (case s of None \<Rightarrow> ''undefined'' | Some t \<Rightarrow> t)"

text \<open>\<open>Array.prototype.findIndex\<close>: the first position whose element passes, or -1.\<close>

fun findIndexFrom :: "('a \<Rightarrow> js_error + bool) \<Rightarrow> 'a list \<Rightarrow> int \<Rightarrow> js_error + int" where
  "findIndexFrom p [] k = Inr (- 1)"
| "findIndexFrom p (x # xs) k =
     andThen (p x) (\<lambda>hit. if hit then Inr k else findIndexFrom p xs (k + 1))"

definition findIndex :: "('a \<Rightarrow> js_error + bool) \<Rightarrow> 'a list \<Rightarrow> js_error + int" where
  "findIndex p xs = findIndexFrom p xs 0"

text \<open>
  \<open>Array.prototype.sort\<close> with a comparator is stable; on a consistent comparator the
  result is the one of a stable insertion sort. Which pairs an engine compares is its own
  choice, but every element of an array of two or more is compared at least once, and
  the comparator below throws exactly when one of its arguments is \<open>null\<close>: the engine and
  this sort throw on the same arrays.
\<close>

fun insertSorted :: "('a \<Rightarrow> 'a \<Rightarrow> js_error + int) \<Rightarrow> 'a \<Rightarrow> 'a list \<Rightarrow> js_error + 'a list" where
  "insertSorted comparefn x [] = Inr [x]"
| "insertSorted comparefn x (y # ys) =
     andThen (comparefn x y) (\<lambda>c.
       if c \<le> 0 then Inr (x # y # ys)
       else andThen (insertSorted comparefn x ys) (\<lambda>rest. Inr (y # rest)))"

fun arraySort :: "('a \<Rightarrow> 'a \<Rightarrow> js_error + int) \<Rightarrow> 'a list \<Rightarrow> js_error + 'a list" where
  "arraySort comparefn [] = Inr []"
| "arraySort comparefn (x # xs) = andThen (arraySort comparefn xs) (insertSorted comparefn x)"

text \<open>
  \<^verbatim>\<open>(a, b) => String(b.created_at).localeCompare(String(a.created_at))\<close>
\<close>

definition newestFirst :: "platform \<Rightarrow> jsval \<Rightarrow> jsval \<Rightarrow> js_error + int" where
  "newestFirst pf a b =
     andThen (propertyCreatedAt b) (\<lambda>cb.
     andThen (propertyCreatedAt a) (\<lambda>ca.
       Inr (localeCompare pf (toString cb) (toString ca))))"

text \<open>
  The argument of \<open>upsertIndexItem\<close>: both callers pass a string \<open>id\<close> and
  \<open>created_at\<close>; \<open>title\<close> may be empty and \<open>message_count\<close> missing. A function that
  writes to \<open>localStorage\<close> returns the storage with its result: what was written before
  an exception stays written.
\<close>

record index_item =
  i_id :: string
  i_created_at :: string
  i_title :: string
  i_message_count :: "nat option"

definition upsertIndexItem ::
  "platform \<Rightarrow> localStorage \<Rightarrow> index_item \<Rightarrow> (js_error + jsval list) \<times> localStorage" where
  "upsertIndexItem pf ls item =
     (let index = getIndex ls in
      case findIndex (\<lambda>c. andThen (propertyId c) (\<lambda>i. Inr (i = Some (i_id item)))) index of
        Inl e \<Rightarrow> (Inl e, ls)
      | Inr existingIdx \<Rightarrow>
          (let nextItem = VObject
                 \<lparr>o_id = Some (i_id item),
                  o_created_at = Some (i_created_at item),
                  o_title = Some (if i_title item \<noteq> [] then i_title item else ''New Conversation''),
                  o_messages = None,
                  o_message_count = Some (case i_message_count item of None \<Rightarrow> 0 | Some n \<Rightarrow> n)\<rparr>;
               index1 = (if existingIdx \<ge> 0 then index[nat existingIdx := nextItem]
                         else nextItem # index)
           in case arraySort (newestFirst pf) index1 of
                Inl e \<Rightarrow> (Inl e, ls)
              | Inr index2 \<Rightarrow> (Inr index2, setIndex ls index2)))"

text \<open>JavaScript truthiness of a string that may be missing, and \<open>s || d\<close>.\<close>

definition truthyString :: "string option \<Rightarrow> bool" where
  "truthyString s = (case s of None \<Rightarrow> False | Some t \<Rightarrow> t \<noteq> [])"

definition stringOr :: "string option \<Rightarrow> string \<Rightarrow> string" where
  "stringOr s d = (case s of None \<Rightarrow> d | Some t \<Rightarrow> if t \<noteq> [] then t else d)"

text \<open>\<open>localConversations.list\<close>, \<open>get\<close>, \<open>save\<close> and \<open>remove\<close>.\<close>

definition list_conversations :: "localStorage \<Rightarrow> jsval list" where
  "list_conversations ls = getIndex ls"

definition truthyValue :: "jsval \<Rightarrow> bool" where
  "truthyValue v = (case v of VNull \<Rightarrow> False | VBool b \<Rightarrow> b | VNum n \<Rightarrow> n \<noteq> 0
                     | VStr s \<Rightarrow> s \<noteq> [] | VArray xs \<Rightarrow> True | VObject c \<Rightarrow> True)"

definition typeofObject :: "jsval \<Rightarrow> bool" where
  "typeofObject v = (case v of VNull \<Rightarrow> True | VArray xs \<Rightarrow> True | VObject c \<Rightarrow> True
                      | _ \<Rightarrow> False)"

text \<open>
  \<^verbatim>\<open>const raw = localStorage.getItem(convKey(id));
  if (!raw) return null;
  const conv = safeJsonParse(raw, null);
  return conv && typeof conv === 'object' ? conv : null;\<close>
  The result \<open>None\<close> is \<open>null\<close>.
\<close>

definition get_conversation :: "localStorage \<Rightarrow> string \<Rightarrow> jsval option" where
  "get_conversation ls ident =
     (case ls (convKey ident) of
        None \<Rightarrow> None
      | Some raw \<Rightarrow>
          if raw = NotJson [] then None
          else (let conv = safeJsonParse raw VNull
                in if truthyValue conv \<and> typeofObject conv then Some conv else None))"

text \<open>
  \<^verbatim>\<open>if (!conversation?.id) throw new Error('Conversation missing id');
  localStorage.setItem(convKey(conversation.id), JSON.stringify(conversation));
  const index = upsertIndexItem({ id: conversation.id,
    created_at: conversation.created_at || nowIso(),
    title: conversation.title || 'New Conversation',
    message_count: Array.isArray(conversation.messages) ? conversation.messages.length : 0 });
  return index;\<close>
  The argument \<open>None\<close> is \<open>null\<close> or \<open>undefined\<close>.
\<close>

definition save ::
  "platform \<Rightarrow> localStorage \<Rightarrow> conversation option \<Rightarrow> (js_error + jsval list) \<times> localStorage" where
  "save pf ls conversation =
     (case conversation of
        None \<Rightarrow> (Inl (ErrorMsg ''Conversation missing id''), ls)
      | Some c \<Rightarrow>
          if \<not> truthyString (o_id c) then (Inl (ErrorMsg ''Conversation missing id''), ls)
          else (let ident = the (o_id c);
                    ls1 = ls(convKey ident \<mapsto> Json (VObject c))
                in upsertIndexItem pf ls1
                     \<lparr>i_id = ident,
                      i_created_at = stringOr (o_created_at c) (nowIso pf),
                      i_title = stringOr (o_title c) ''New Conversation'',
                      i_message_count =
                        Some (case o_messages c of Some ms \<Rightarrow> length ms | None \<Rightarrow> 0)\<rparr>))"







text \<open>
  A well-formed Conversation record in the sense of the specification's data model: an
  object with an id, a creation time, a title and a message log.
\<close>

definition wellFormedRecord :: "jsval \<Rightarrow> bool" where
  "wellFormedRecord v =
     (case v of
        VObject c \<Rightarrow> o_id c \<noteq> None \<and> o_created_at c \<noteq> None \<and> o_title c \<noteq> None \<and> o_messages c \<noteq> None
      | _ \<Rightarrow> False)"

text \<open>A collation for the witnesses: the order of the code units.\<close>

fun codeUnitCompare :: "string \<Rightarrow> string \<Rightarrow> int" where
  "codeUnitCompare [] [] = 0"
| "codeUnitCompare [] (b # bs) = - 1"
| "codeUnitCompare (a # as) [] = 1"
| "codeUnitCompare (a # as) (b # bs) =
     (if (of_char a :: nat) < of_char b then - 1
      else if (of_char b :: nat) < of_char a then 1
      else codeUnitCompare as bs)"

section \<open>The streaming reader: \<open>api.sendMessageStream\<close> (api.js)\<close>

text \<open>
  What the network does to one request: \<open>fetch\<close> rejects, the response is not \<open>ok\<close>, or
  the body delivers its chunks in order and then ends (\<open>False\<close>) or fails to read
  (\<open>True\<close>). A chunk is the text \<open>TextDecoder.decode\<close> gives for it. The request is the
  JSON body of the \<open>POST\<close>, with the conversation id of the URL.
\<close>

datatype transport = FetchRejects | ResponseNotOk | Body "string list" bool

record stream_request =
  r_conversationId :: string
  r_content :: string
  r_chairman_model :: "string option"
  r_council_models :: "string list"
  r_skip_clarification :: bool
  r_is_first_message :: bool

text \<open>
  The result of the call: the exception it throws, if any, the state the callback has
  built, and the lines written with \<open>console.error\<close>.
\<close>

record 's stream_result =
  thrown :: "js_error option"
  final :: 's
  console :: "string list"

text \<open>\<open>chunk.split('\n')\<close>: the pieces between the newlines, at least one.\<close>

fun splitNewline :: "string \<Rightarrow> string list" where
  "splitNewline [] = [[]]"
| "splitNewline (c # cs) =
     (if c = CHR 0x0A then [] # splitNewline cs
      else (case splitNewline cs of l # ls \<Rightarrow> (c # l) # ls | [] \<Rightarrow> [[c]]))"

text \<open>
  \<open>value.name\<close> for a value that is not \<open>null\<close>: the member of an object, \<open>undefined\<close>
  for a missing member and for a boolean, a number, a string or an array (the names read
  here are \<open>type\<close>, \<open>data\<close>, \<open>metadata\<close> and \<open>title\<close>).
\<close>

definition propertyOf :: "json \<Rightarrow> string \<Rightarrow> json option" where
  "propertyOf v name = (case v of JObj members \<Rightarrow> map_of members name | _ \<Rightarrow> None)"

text \<open>
  \<^verbatim>\<open>if (line.startsWith('data: ')) {
    const data = line.slice(6);
    try { const event = JSON.parse(data); onEvent(event.type, event); }
    catch (e) { console.error('Failed to parse SSE event:', e); } }\<close>
  The \<open>try\<close> covers the parse, the read of \<open>event.type\<close> (which throws when the parsed
  value is \<open>null\<close>) and the callback. The callback is a state transformer that may throw:
  it returns the exception, if any, with the state it has reached.
\<close>

definition processLine ::
  "platform \<Rightarrow> (json option \<Rightarrow> json \<Rightarrow> 's \<Rightarrow> js_error option \<times> 's)
     \<Rightarrow> 's \<times> string list \<Rightarrow> string \<Rightarrow> 's \<times> string list" where
  "processLine pf onEvent acc line =
     (if take 6 line = ''data: ''
      then (let data = drop 6 line in
            case jsonParse pf data of
              None \<Rightarrow> (fst acc, snd acc @ [''Failed to parse SSE event:''])
            | Some event \<Rightarrow>
                if event = JNull then (fst acc, snd acc @ [''Failed to parse SSE event:''])
                else (case onEvent (propertyOf event ''type'') event (fst acc) of
                        (None, s) \<Rightarrow> (s, snd acc)
                      | (Some e, s) \<Rightarrow> (s, snd acc @ [''Failed to parse SSE event:''])))
      else acc)"

definition processChunk ::
  "platform \<Rightarrow> (json option \<Rightarrow> json \<Rightarrow> 's \<Rightarrow> js_error option \<times> 's)
     \<Rightarrow> 's \<times> string list \<Rightarrow> string \<Rightarrow> 's \<times> string list" where
  "processChunk pf onEvent acc chunk = foldl (processLine pf onEvent) acc (splitNewline chunk)"

definition sendMessageStream ::
  "platform \<Rightarrow> transport \<Rightarrow> (json option \<Rightarrow> json \<Rightarrow> 's \<Rightarrow> js_error option \<times> 's) \<Rightarrow> 's
     \<Rightarrow> 's stream_result" where
  "sendMessageStream pf net onEvent s =
     (case net of
        FetchRejects \<Rightarrow> \<lparr>thrown = Some TypeError, final = s, console = []\<rparr>
      | ResponseNotOk \<Rightarrow>
          \<lparr>thrown = Some (ErrorMsg ''Failed to send message''), final = s, console = []\<rparr>
      | Body chunks readFails \<Rightarrow>
          (let acc = foldl (processChunk pf onEvent) (s, []) chunks
           in \<lparr>thrown = (if readFails then Some TypeError else None),
               final = fst acc, console = snd acc\<rparr>))"

text \<open>
  In the words of the claim: the data lines of a stream are the lines of its chunks that
  begin with \<open>data: \<close>; the events are the values their payloads parse to, in the order
  of the lines (a payload that does not parse, or parses to \<open>null\<close>, gives none); the
  skipped lines are the data lines that give no event.
\<close>

definition dataLines :: "string list \<Rightarrow> string list" where
  "dataLines chunks = filter (\<lambda>line. take 6 line = ''data: '') (concat (map splitNewline chunks))"

definition eventOf :: "platform \<Rightarrow> string \<Rightarrow> json option" where
  "eventOf pf line =
     (case jsonParse pf (drop 6 line) of
        None \<Rightarrow> None
      | Some event \<Rightarrow> if event = JNull then None else Some event)"

definition deliveredEvents :: "platform \<Rightarrow> string list \<Rightarrow> json list" where
  "deliveredEvents pf chunks = List.map_filter (eventOf pf) (dataLines chunks)"


section \<open>ConversationSession and StreamSessionController: \<open>App\<close> (App.jsx)\<close>

text \<open>
  The state of the component (the \<open>useState\<close> variables the handlers use), with the two
  things outside it the handlers change: \<open>localStorage\<close> and the requests sent, oldest
  first.

  A handler is a closure of one render: it reads the state variables as that render saw
  them (the argument \<open>render\<close>), while a setter acts on the live state (the argument
  \<open>st\<close>). A handler called from the latest render has \<open>render = st\<close>. A state updater
  passed to a setter is applied to the live state where the setter is called, and an
  exception it throws surfaces there. The objects of the previous state are shared with
  the next one: an assignment to \<open>lastMsg\<close> is in the state even when the updater throws
  after it. A handler returns the exception it throws, if any, with the state reached.
\<close>

record app_state =
  conversations :: "jsval list"
  currentConversationId :: "string option"
  currentConversation :: "conversation option"
  isLoading :: bool
  pendingClarification :: "json option"
  originalQuery :: "string option"
  chairmanModel :: "string option"
  councilModels :: "string list"
  storage :: localStorage
  requests :: "stream_request list"

definition thenDo ::
  "js_error option \<times> 's \<Rightarrow> ('s \<Rightarrow> js_error option \<times> 's) \<Rightarrow> js_error option \<times> 's" where
  "thenDo r f = (case r of (None, s) \<Rightarrow> f s | (Some e, s) \<Rightarrow> (Some e, s))"

definition truthyJson :: "json option \<Rightarrow> bool" where
  "truthyJson v =
     (case v of
        None \<Rightarrow> False
      | Some JNull \<Rightarrow> False
      | Some (JBool b) \<Rightarrow> b
      | Some (JNum n) \<Rightarrow> n \<noteq> 0
      | Some (JStr s) \<Rightarrow> s \<noteq> []
      | Some (JArr xs) \<Rightarrow> True
      | Some (JObj members) \<Rightarrow> True)"

text \<open>
  The end of every updater: \<^verbatim>\<open>localConversations.save(next);\<close>, in some of them
  \<^verbatim>\<open>setConversations(localConversations.list());\<close>, then \<^verbatim>\<open>return next;\<close>.
\<close>

definition commit :: "platform \<Rightarrow> bool \<Rightarrow> conversation \<Rightarrow> app_state \<Rightarrow> js_error option \<times> app_state" where
  "commit pf refresh next st =
     (case save pf (storage st) (Some next) of
        (Inl e, ls) \<Rightarrow> (Some e, st\<lparr>storage := ls\<rparr>)
      | (Inr index, ls) \<Rightarrow>
          (None, st\<lparr>storage := ls,
                    conversations := (if refresh then list_conversations ls else conversations st),
                    currentConversation := Some next\<rparr>))"

text \<open>
  \<^verbatim>\<open>setCurrentConversation((prev) => {
    const next = { ...prev, messages: [...prev.messages, m] };
    localConversations.save(next);
    setConversations(localConversations.list());
    return next; });\<close>
\<close>

definition appendMessage :: "platform \<Rightarrow> message \<Rightarrow> app_state \<Rightarrow> js_error option \<times> app_state" where
  "appendMessage pf m st =
     (case currentConversation st of
        None \<Rightarrow> (Some TypeError, st)
      | Some prev \<Rightarrow>
          (case o_messages prev of
             None \<Rightarrow> (Some TypeError, st)
           | Some ms \<Rightarrow> commit pf True (prev\<lparr>o_messages := Some (ms @ [m])\<rparr>) st))"

text \<open>
  The updater of a stage event:
  \<^verbatim>\<open>const messages = [...prev.messages];
  const lastMsg = messages[messages.length - 1];
  lastMsg.stage1 = event.data;        // the assignments of the event, if any
  lastMsg.loading.stage1 = false;     // its loading flag
  const next = { ...prev, messages };
  localConversations.save(next);
  return next;\<close>
  \<open>assign\<close> is the assignments to \<open>lastMsg\<close> itself, \<open>flag\<close> the assignment to its
  \<open>loading\<close> object. With no message there is no \<open>lastMsg\<close> and the first assignment
  throws; without a \<open>loading\<close> object the flag assignment throws, after \<open>assign\<close>.
\<close>

definition updateLastMessage ::
  "platform \<Rightarrow> (message \<Rightarrow> message) \<Rightarrow> (loading_flags \<Rightarrow> loading_flags) \<Rightarrow> app_state
     \<Rightarrow> js_error option \<times> app_state" where
  "updateLastMessage pf assign flag st =
     (case currentConversation st of
        None \<Rightarrow> (Some TypeError, st)
      | Some prev \<Rightarrow>
          (case o_messages prev of
             None \<Rightarrow> (Some TypeError, st)
           | Some ms \<Rightarrow>
               if ms = [] then (Some TypeError, st)
               else (let lastMsg1 = assign (last ms);
                         st1 = st\<lparr>currentConversation :=
                                   Some (prev\<lparr>o_messages := Some (butlast ms @ [lastMsg1])\<rparr>)\<rparr>
                     in case m_loading lastMsg1 of
                          None \<Rightarrow> (Some TypeError, st1)
                        | Some flags \<Rightarrow>
                            (let lastMsg2 = lastMsg1\<lparr>m_loading := Some (flag flags)\<rparr>;
                                 next = prev\<lparr>o_messages := Some (butlast ms @ [lastMsg2])\<rparr>
                             in commit pf False next (st1\<lparr>currentConversation := Some next\<rparr>)))))"

text \<open>
  \<open>event.data?.title\<close>, when it is a string (a title of another type is outside the
  typed record), and the updater of \<open>title_complete\<close>:
  \<^verbatim>\<open>const next = { ...prev, title: event.data?.title || prev.title };
  localConversations.save(next);
  setConversations(localConversations.list());
  return next;\<close>
  Without a conversation, \<open>prev.title\<close> throws when it is read, and \<open>save\<close> refuses the
  object without id otherwise.
\<close>

definition eventTitle :: "json \<Rightarrow> string option" where
  "eventTitle event =
     (case propertyOf event ''data'' of
        None \<Rightarrow> None
      | Some d \<Rightarrow> (case propertyOf d ''title'' of Some (JStr t) \<Rightarrow> Some t | _ \<Rightarrow> None))"

definition updateTitle :: "platform \<Rightarrow> json \<Rightarrow> app_state \<Rightarrow> js_error option \<times> app_state" where
  "updateTitle pf event st =
     (case currentConversation st of
        None \<Rightarrow> if truthyString (eventTitle event)
                then (Some (ErrorMsg ''Conversation missing id''), st)
                else (Some TypeError, st)
      | Some prev \<Rightarrow>
          commit pf True
            (prev\<lparr>o_title := (if truthyString (eventTitle event) then eventTitle event
                               else o_title prev)\<rparr>) st)"

text \<open>The callback of \<open>handleSendMessage\<close>: the \<open>switch\<close> on the event type.\<close>

definition onEvent ::
  "platform \<Rightarrow> json option \<Rightarrow> json \<Rightarrow> app_state \<Rightarrow> js_error option \<times> app_state" where
  "onEvent pf eventType event st =
     (if eventType = Some (JStr ''clarification_start'') then
        updateLastMessage pf (\<lambda>lastMsg. lastMsg) (\<lambda>flags. flags\<lparr>l_clarification := True\<rparr>) st
      else if eventType = Some (JStr ''clarification_needed'') then
        thenDo
          (updateLastMessage pf
             (\<lambda>lastMsg. lastMsg\<lparr>m_clarification := propertyOf event ''data''\<rparr>)
             (\<lambda>flags. flags\<lparr>l_clarification := False\<rparr>) st)
          (\<lambda>st'. (None, st'\<lparr>pendingClarification := propertyOf event ''data'',
                             isLoading := False\<rparr>))
      else if eventType = Some (JStr ''clarification_complete'') then
        updateLastMessage pf (\<lambda>lastMsg. lastMsg) (\<lambda>flags. flags\<lparr>l_clarification := False\<rparr>) st
      else if eventType = Some (JStr ''stage1_start'') then
        updateLastMessage pf (\<lambda>lastMsg. lastMsg) (\<lambda>flags. flags\<lparr>l_stage1 := True\<rparr>) st
      else if eventType = Some (JStr ''stage1_complete'') then
        updateLastMessage pf
          (\<lambda>lastMsg. lastMsg\<lparr>m_stage1 := propertyOf event ''data''\<rparr>)
          (\<lambda>flags. flags\<lparr>l_stage1 := False\<rparr>) st
      else if eventType = Some (JStr ''stage2_start'') then
        updateLastMessage pf (\<lambda>lastMsg. lastMsg) (\<lambda>flags. flags\<lparr>l_stage2 := True\<rparr>) st
      else if eventType = Some (JStr ''stage2_complete'') then
        updateLastMessage pf
          (\<lambda>lastMsg. lastMsg\<lparr>m_stage2 := propertyOf event ''data'',
                              m_metadata := propertyOf event ''metadata''\<rparr>)
          (\<lambda>flags. flags\<lparr>l_stage2 := False\<rparr>) st
      else if eventType = Some (JStr ''stage3_start'') then
        updateLastMessage pf (\<lambda>lastMsg. lastMsg) (\<lambda>flags. flags\<lparr>l_stage3 := True\<rparr>) st
      else if eventType = Some (JStr ''stage3_complete'') then
        updateLastMessage pf
          (\<lambda>lastMsg. lastMsg\<lparr>m_stage3 := propertyOf event ''data''\<rparr>)
          (\<lambda>flags. flags\<lparr>l_stage3 := False\<rparr>) st
      else if eventType = Some (JStr ''title_complete'') then
        updateTitle pf event st
      else if eventType = Some (JStr ''complete'') then
        (None, st\<lparr>isLoading := False, originalQuery := None,
                  conversations := list_conversations (storage st)\<rparr>)
      else if eventType = Some (JStr ''error'') then
        (None, st\<lparr>isLoading := False\<rparr>)
      else (None, st))"

text \<open>
  \<^verbatim>\<open>`${originalQuery}\n\nAdditional context: ${content}`\<close>: what stands between the
  original query and the new content.
\<close>

definition separator :: string where
  "separator = [CHR 0x0A, CHR 0x0A] @ ''Additional context: ''"

definition userMessage :: "string \<Rightarrow> message" where
  "userMessage text =
     \<lparr>m_role = ''user'', m_content = Some text, m_clarification = None, m_stage1 = None,
      m_stage2 = None, m_stage3 = None, m_metadata = None, m_loading = None\<rparr>"

definition assistantMessage :: message where
  "assistantMessage =
     \<lparr>m_role = ''assistant'', m_content = None, m_clarification = Some JNull,
      m_stage1 = Some JNull, m_stage2 = Some JNull, m_stage3 = Some JNull,
      m_metadata = Some JNull,
      m_loading = Some \<lparr>l_clarification = False, l_stage1 = False, l_stage2 = False,
                        l_stage3 = False\<rparr>\<rparr>"

text \<open>
  \<^verbatim>\<open>let finalContent = content;
  if (pendingClarification && originalQuery) {
    finalContent = `${originalQuery}\n\nAdditional context: ${content}`;
    setPendingClarification(null);
    setOriginalQuery(null);
    skipClarification = true;
  } else {
    setOriginalQuery(content);
  }\<close>
  The result is \<open>finalContent\<close>, \<open>skipClarification\<close> and the state.
\<close>

definition resolveClarification ::
  "app_state \<Rightarrow> string \<Rightarrow> bool \<Rightarrow> app_state \<Rightarrow> string \<times> bool \<times> app_state" where
  "resolveClarification render content skipClarification st =
     (if truthyJson (pendingClarification render) \<and> truthyString (originalQuery render)
      then (the (originalQuery render) @ separator @ content, True,
            st\<lparr>pendingClarification := None, originalQuery := None\<rparr>)
      else (content, skipClarification, st\<lparr>originalQuery := Some content\<rparr>))"

text \<open>
  The updater of the \<open>catch\<close> block:
  \<^verbatim>\<open>if (!prev) return prev;
  const next = { ...prev, messages: prev.messages.slice(0, -2) };
  localConversations.save(next);
  setConversations(localConversations.list());
  return next;\<close>
\<close>

definition rollback :: "platform \<Rightarrow> app_state \<Rightarrow> js_error option \<times> app_state" where
  "rollback pf st =
     (case currentConversation st of
        None \<Rightarrow> (None, st)
      | Some prev \<Rightarrow>
          (case o_messages prev of
             None \<Rightarrow> (Some TypeError, st)
           | Some ms \<Rightarrow> commit pf True (prev\<lparr>o_messages := Some (take (length ms - 2) ms)\<rparr>) st))"

text \<open>
  \<open>handleSendMessage\<close>. The \<open>try\<close> block is the two appends and the streaming call;
  whatever it throws goes to the \<open>catch\<close> block, whose own exception leaves the handler.
\<close>

definition streamRequest :: "app_state \<Rightarrow> string \<Rightarrow> bool \<Rightarrow> bool \<Rightarrow> stream_request" where
  "streamRequest render finalContent skipClarification isFirstMessage =
     \<lparr>r_conversationId = the (currentConversationId render),
      r_content = finalContent,
      r_chairman_model = chairmanModel render,
      r_council_models = councilModels render,
      r_skip_clarification = skipClarification,
      r_is_first_message = isFirstMessage\<rparr>"

definition tryBlock ::
  "platform \<Rightarrow> transport \<Rightarrow> stream_request \<Rightarrow> string \<Rightarrow> app_state \<Rightarrow> js_error option \<times> app_state" where
  "tryBlock pf net request content st =
     thenDo (appendMessage pf (userMessage content) st) (\<lambda>st1.
     thenDo (appendMessage pf assistantMessage st1) (\<lambda>st2.
       (let res = sendMessageStream pf net (onEvent pf) (st2\<lparr>requests := requests st2 @ [request]\<rparr>)
        in (thrown res, final res))))"

definition handleSendMessage ::
  "platform \<Rightarrow> transport \<Rightarrow> app_state \<Rightarrow> string \<Rightarrow> bool \<Rightarrow> app_state
     \<Rightarrow> js_error option \<times> app_state" where
  "handleSendMessage pf net render content skipClarification st =
     (if \<not> truthyString (currentConversationId render) then (None, st)
      else case currentConversation render of
        None \<Rightarrow> (None, st)
      | Some cur \<Rightarrow>
          (let isFirstMessage = ((case o_messages cur of Some ms \<Rightarrow> length ms | None \<Rightarrow> 0) = 0);
               (finalContent, skip, st1) =
                  resolveClarification render content skipClarification (st\<lparr>isLoading := True\<rparr>)
           in case tryBlock pf net (streamRequest render finalContent skip isFirstMessage)
                     content st1 of
                (None, st2) \<Rightarrow> (None, st2)
              | (Some e, st2) \<Rightarrow>
                  thenDo (rollback pf st2) (\<lambda>st3. (None, st3\<lparr>isLoading := False\<rparr>))))"

text \<open>
  \<^verbatim>\<open>if (originalQuery) {
    setPendingClarification(null);
    handleSendMessage(originalQuery, true); }\<close>
  \<open>handleSendMessage\<close> is the closure of the same render.
\<close>

definition handleSkipClarification ::
  "platform \<Rightarrow> transport \<Rightarrow> app_state \<Rightarrow> app_state \<Rightarrow> js_error option \<times> app_state" where
  "handleSkipClarification pf net render st =
     (if truthyString (originalQuery render)
      then handleSendMessage pf net render (the (originalQuery render)) True
             (st\<lparr>pendingClarification := None\<rparr>)
      else (None, st))"


section \<open>What the claims about \<open>App\<close> speak of\<close>

text \<open>
  The message log of the open conversation, its last message (the open assistant message
  during a turn), and the log of the record stored under an id.
\<close>

definition messageLog :: "app_state \<Rightarrow> message list option" where
  "messageLog st = (case currentConversation st of None \<Rightarrow> None | Some c \<Rightarrow> o_messages c)"

definition lastMessage :: "app_state \<Rightarrow> message option" where
  "lastMessage st =
     (case messageLog st of None \<Rightarrow> None | Some ms \<Rightarrow> if ms = [] then None else Some (last ms))"

definition persistedLog :: "app_state \<Rightarrow> string \<Rightarrow> message list option" where
  "persistedLog st ident =
     (case get_conversation (storage st) ident of Some (VObject c) \<Rightarrow> o_messages c | _ \<Rightarrow> None)"

text \<open>
  The fields of a message, and the fields each event of the vocabulary owns, as the table
  of the specification lists them: a start event its loading flag, a completion event its
  payload (with \<open>metadata\<close> for \<open>stage2_complete\<close>) and its loading flag;
  \<open>title_complete\<close>, \<open>complete\<close>, \<open>error\<close> and an unknown type own no field of a
  message.
\<close>

datatype field = Role | Content | Clarification | Stage1 | Stage2 | Stage3 | Metadata
  | LoadingClarification | LoadingStage1 | LoadingStage2 | LoadingStage3

datatype field_value = Text "string option" | Payload "json option" | Flag "bool option"

fun fieldValue :: "field \<Rightarrow> message \<Rightarrow> field_value" where
  "fieldValue Role m = Text (Some (m_role m))"
| "fieldValue Content m = Text (m_content m)"
| "fieldValue Clarification m = Payload (m_clarification m)"
| "fieldValue Stage1 m = Payload (m_stage1 m)"
| "fieldValue Stage2 m = Payload (m_stage2 m)"
| "fieldValue Stage3 m = Payload (m_stage3 m)"
| "fieldValue Metadata m = Payload (m_metadata m)"
| "fieldValue LoadingClarification m = Flag (map_option l_clarification (m_loading m))"
| "fieldValue LoadingStage1 m = Flag (map_option l_stage1 (m_loading m))"
| "fieldValue LoadingStage2 m = Flag (map_option l_stage2 (m_loading m))"
| "fieldValue LoadingStage3 m = Flag (map_option l_stage3 (m_loading m))"

definition ownFields :: "json option \<Rightarrow> field set" where
  "ownFields eventType =
     (if eventType = Some (JStr ''clarification_start'') then {LoadingClarification}
      else if eventType = Some (JStr ''clarification_needed'')
        then {Clarification, LoadingClarification}
      else if eventType = Some (JStr ''clarification_complete'') then {LoadingClarification}
      else if eventType = Some (JStr ''stage1_start'') then {LoadingStage1}
      else if eventType = Some (JStr ''stage1_complete'') then {Stage1, LoadingStage1}
      else if eventType = Some (JStr ''stage2_start'') then {LoadingStage2}
      else if eventType = Some (JStr ''stage2_complete'') then {Stage2, Metadata, LoadingStage2}
      else if eventType = Some (JStr ''stage3_start'') then {LoadingStage3}
      else if eventType = Some (JStr ''stage3_complete'') then {Stage3, LoadingStage3}
      else {})"

text \<open>
  A turn can start: a conversation is selected and loaded in the render the handler
  belongs to. The open conversation is a record of the data model, with the id \<open>ident\<close>
  and the message log \<open>pre\<close>, and the stored index has no \<open>null\<close> element. The
  transport fails when \<open>fetch\<close> rejects, the response is not \<open>ok\<close> or a read fails. The
  events a response delivers.
\<close>

definition turnStarts :: "app_state \<Rightarrow> bool" where
  "turnStarts render =
     (truthyString (currentConversationId render) \<and> currentConversation render \<noteq> None)"

definition openConversation :: "app_state \<Rightarrow> string \<Rightarrow> message list \<Rightarrow> bool" where
  "openConversation st ident pre =
     ((case currentConversation st of
         None \<Rightarrow> False
       | Some c \<Rightarrow> o_id c = Some ident \<and> ident \<noteq> [] \<and> o_messages c = Some pre)
      \<and> VNull \<notin> set (getIndex (storage st)))"

definition transportFails :: "transport \<Rightarrow> bool" where
  "transportFails net = (case net of Body chunks readFails \<Rightarrow> readFails | _ \<Rightarrow> True)"

definition eventsOf :: "platform \<Rightarrow> transport \<Rightarrow> json list" where
  "eventsOf pf net = (case net of Body chunks readFails \<Rightarrow> deliveredEvents pf chunks | _ \<Rightarrow> [])"

text \<open>
  The state between the second append and the end of the turn (used in the proofs): the
  log is \<open>pre\<close> and one more message, which is an assistant message with a \<open>loading\<close>
  object; the stored record is the one in memory; the stored index has no \<open>null\<close>.
\<close>

definition openTurn :: "message list \<Rightarrow> string \<Rightarrow> app_state \<Rightarrow> bool" where
  "openTurn pre ident st =
     ((case currentConversation st of
         None \<Rightarrow> False
       | Some c \<Rightarrow>
           o_id c = Some ident \<and> ident \<noteq> []
           \<and> get_conversation (storage st) ident = Some (VObject c)
           \<and> (case o_messages c of
                None \<Rightarrow> False
              | Some ms \<Rightarrow> ms \<noteq> [] \<and> butlast ms = pre \<and> m_role (last ms) = ''assistant''
                           \<and> m_loading (last ms) \<noteq> None))
      \<and> VNull \<notin> set (getIndex (storage st)))"

text \<open>
  What an updater does to \<open>lastMsg\<close> (used in the proofs): the assignments to the
  message, then the one to its \<open>loading\<close> object when it has one; and what the handler
  of each event type does to it.
\<close>

definition touch ::
  "(message \<Rightarrow> message) \<Rightarrow> (loading_flags \<Rightarrow> loading_flags) \<Rightarrow> message \<Rightarrow> message" where
  "touch assign flag m =
     (case m_loading (assign m) of
        None \<Rightarrow> assign m
      | Some flags \<Rightarrow> (assign m)\<lparr>m_loading := Some (flag flags)\<rparr>)"

definition reducer :: "json option \<Rightarrow> json \<Rightarrow> message \<Rightarrow> message" where
  "reducer eventType event =
     (if eventType = Some (JStr ''clarification_start'') then
        touch (\<lambda>lastMsg. lastMsg) (\<lambda>flags. flags\<lparr>l_clarification := True\<rparr>)
      else if eventType = Some (JStr ''clarification_needed'') then
        touch (\<lambda>lastMsg. lastMsg\<lparr>m_clarification := propertyOf event ''data''\<rparr>)
          (\<lambda>flags. flags\<lparr>l_clarification := False\<rparr>)
      else if eventType = Some (JStr ''clarification_complete'') then
        touch (\<lambda>lastMsg. lastMsg) (\<lambda>flags. flags\<lparr>l_clarification := False\<rparr>)
      else if eventType = Some (JStr ''stage1_start'') then
        touch (\<lambda>lastMsg. lastMsg) (\<lambda>flags. flags\<lparr>l_stage1 := True\<rparr>)
      else if eventType = Some (JStr ''stage1_complete'') then
        touch (\<lambda>lastMsg. lastMsg\<lparr>m_stage1 := propertyOf event ''data''\<rparr>)
          (\<lambda>flags. flags\<lparr>l_stage1 := False\<rparr>)
      else if eventType = Some (JStr ''stage2_start'') then
        touch (\<lambda>lastMsg. lastMsg) (\<lambda>flags. flags\<lparr>l_stage2 := True\<rparr>)
      else if eventType = Some (JStr ''stage2_complete'') then
        touch (\<lambda>lastMsg. lastMsg\<lparr>m_stage2 := propertyOf event ''data'',
                                   m_metadata := propertyOf event ''metadata''\<rparr>)
          (\<lambda>flags. flags\<lparr>l_stage2 := False\<rparr>)
      else if eventType = Some (JStr ''stage3_start'') then
        touch (\<lambda>lastMsg. lastMsg) (\<lambda>flags. flags\<lparr>l_stage3 := True\<rparr>)
      else if eventType = Some (JStr ''stage3_complete'') then
        touch (\<lambda>lastMsg. lastMsg\<lparr>m_stage3 := propertyOf event ''data''\<rparr>)
          (\<lambda>flags. flags\<lparr>l_stage3 := False\<rparr>)
      else (\<lambda>lastMsg. lastMsg))"

definition mapLast :: "('a \<Rightarrow> 'a) \<Rightarrow> 'a list \<Rightarrow> 'a list" where
  "mapLast g xs = (if xs = [] then [] else butlast xs @ [g (last xs)])"
section \<open>Concrete data for the witnesses\<close>

text \<open>
  \<open>JSON.parse\<close> on the texts the examples use (any other text is taken to be
  rejected), a platform with the code-unit collation, and a store with two indexed
  conversations.
\<close>

definition jsonParseW :: "string \<Rightarrow> json option" where
  \<open>jsonParseW = map_of
     [(''{"type":"stage1_complete","data":{"a":"4"}}'',
         JObj [(''type'', JStr ''stage1_complete''), (''data'', JObj [(''a'', JStr ''4'')])]),
      (''{"type":"stage2_complete","data":[1],"metadata":{"m":2}}'',
         JObj [(''type'', JStr ''stage2_complete''), (''data'', JArr [JNum 1]),
               (''metadata'', JObj [(''m'', JNum 2)])]),
      (''{"type":"clarification_needed","data":{"needs_clarification":true,"questions":["Which year?"]}}'',
         JObj [(''type'', JStr ''clarification_needed''),
               (''data'', JObj [(''needs_clarification'', JBool True),
                                (''questions'', JArr [JStr ''Which year?''])])]),
      (''{"type":"error","message":"boom"}'',
         JObj [(''type'', JStr ''error''), (''message'', JStr ''boom'')]),
      (''{"type":"complete"}'', JObj [(''type'', JStr ''complete'')]),
      (''null'', JNull),
      (''7'', JNum 7)]\<close>

definition platformW :: platform where
  "platformW = \<lparr>localeCompare = codeUnitCompare, nowIso = ''2026-01-01T00:00:00.000Z'',
                jsonParse = jsonParseW\<rparr>"

definition entryW1 :: jsval where
  "entryW1 = VObject \<lparr>o_id = Some ''c1'', o_created_at = Some ''2025-01-02T00:00:00.000Z'',
                       o_title = Some ''First'', o_messages = None, o_message_count = Some 2\<rparr>"

definition entryW2 :: jsval where
  "entryW2 = VObject \<lparr>o_id = Some ''c2'', o_created_at = Some ''2025-01-01T00:00:00.000Z'',
                       o_title = Some ''Second'', o_messages = None, o_message_count = Some 0\<rparr>"

definition storeW :: localStorage where
  "storeW = [INDEX_KEY \<mapsto> Json (VArray [entryW1, entryW2])]"

definition convW :: conversation where
  "convW = \<lparr>o_id = Some ''c2'', o_created_at = Some ''2025-01-03T00:00:00.000Z'',
            o_title = Some [],
            o_messages = Some [\<lparr>m_role = ''user'', m_content = Some ''hi'', m_clarification = None,
                                m_stage1 = None, m_stage2 = None, m_stage3 = None,
                                m_metadata = None, m_loading = None\<rparr>],
            o_message_count = None\<rparr>"

definition emptyObject :: jsobject where
  "emptyObject = \<lparr>o_id = None, o_created_at = None, o_title = None, o_messages = None,
                  o_message_count = None\<rparr>"

definition storeCorrupt :: localStorage where
  "storeCorrupt = [INDEX_KEY \<mapsto> Json (VObject emptyObject),
                   convKey ''a'' \<mapsto> NotJson ''{oops'',
                   convKey ''b'' \<mapsto> Json (VNum 7),
                   convKey ''c'' \<mapsto> Json (VObject convW)]"


definition conv0 :: conversation where
  "conv0 = \<lparr>o_id = Some ''c1'', o_created_at = Some ''2025-01-02T00:00:00.000Z'',
            o_title = Some ''New Conversation'', o_messages = Some [], o_message_count = None\<rparr>"

definition entry0 :: jsval where
  "entry0 = VObject \<lparr>o_id = Some ''c1'', o_created_at = Some ''2025-01-02T00:00:00.000Z'',
                      o_title = Some ''New Conversation'', o_messages = None,
                      o_message_count = Some 0\<rparr>"

definition store0 :: localStorage where
  "store0 = [INDEX_KEY \<mapsto> Json (VArray [entry0]), convKey ''c1'' \<mapsto> Json (VObject conv0)]"

definition state0 :: app_state where
  "state0 = \<lparr>conversations = [entry0], currentConversationId = Some ''c1'',
             currentConversation = Some conv0, isLoading = False, pendingClarification = None,
             originalQuery = None, chairmanModel = None, councilModels = [],
             storage = store0, requests = []\<rparr>"





text \<open>
  The state in the middle of a turn, with the user message and the open assistant
  message, and a \<open>stage2_complete\<close> event.
\<close>

definition stateOpen :: app_state where
  "stateOpen = state0\<lparr>currentConversation :=
     Some (conv0\<lparr>o_messages := Some [userMessage ''What is 2+2?'', assistantMessage]\<rparr>)\<rparr>"

definition eventStage2 :: json where
  "eventStage2 = JObj [(''type'', JStr ''stage2_complete''), (''data'', JArr [JNum 1]),
                       (''metadata'', JObj [(''m'', JNum 2)])]"
section \<open>Sequencing\<close>

lemma andThen_Inr [simp]: "andThen (Inr x) f = f x"
  by (simp add: andThen_def)

lemma andThen_Inl [simp]: "andThen (Inl e) f = Inl e"
  by (simp add: andThen_def)

section \<open>Properties of the WaveEncoder\<close>

lemma list_update_Cons_numeral:
  "(x # xs)[numeral k := y] = x # xs[pred_numeral k := y]"
  by (simp add: numeral_eq_Suc)

lemma setInt16_append:
  "setInt16 (pre @ a # b # rest) (length pre) x True
     = Inr (pre @ of_int (toInteger x) # of_int (toInteger x div 256) # rest)"
  by (simp add: setInt16_def Let_def list_update_append)

lemma floatTo16BitPCM_closed:
  "floatTo16BitPCM (pre @ replicate (2 * length xs) 0) (length pre) xs
     = Inr (pre @ concat (map pcmBytes xs))"
proof (induction xs arbitrary: pre)
  case Nil
  then show ?case by simp
next
  case (Cons x xs)
  have "floatTo16BitPCM ((pre @ pcmBytes x) @ replicate (2 * length xs) 0) (length (pre @ pcmBytes x)) xs
     = Inr ((pre @ pcmBytes x) @ concat (map pcmBytes xs))"
    by (rule Cons.IH)
  then show ?case
    by (simp add: setInt16_append andThen_def pcmBytes_def [of x])
qed

lemma zeros44: "replicate 44 (0::byte) = [0,0,0,0,0,0,0,0,0,0,0,0,0,0,0,0,0,0,0,0,0,0,0,0,0,0,0,0,0,0,0,0,0,0,0,0,0,0,0,0,0,0,0,0]"
  by (simp add: numeral_eq_Suc)

lemma length_wavHeader: "length (wavHeader n sr nc) = 44"
  by (simp add: wavHeader_def le16_def le32_def)

lemma encodeWav_closed:
  "encodeWav samples sampleRate numChannels
     = Inr \<lparr>blob_bytes = wavHeader (length samples) sampleRate numChannels @ concat (map pcmBytes samples),
             blob_type = ''audio/wav''\<rparr>"
proof -
  have buf: "replicate (44 + length samples * 2) (0::byte)
               = replicate 44 0 @ replicate (2 * length samples) 0"
    by (simp add: replicate_add mult.commute)
  have fl: "floatTo16BitPCM
               (wavHeader (length samples) sampleRate numChannels @ replicate (2 * length samples) 0)
               44 samples
             = Inr (wavHeader (length samples) sampleRate numChannels @ concat (map pcmBytes samples))"
    using floatTo16BitPCM_closed [of "wavHeader (length samples) sampleRate numChannels" samples]
    by (simp add: length_wavHeader)
  show ?thesis
    unfolding encodeWav_def Let_def buf zeros44
    using fl
    by (simp add: wavHeader_def le16_def le32_def andThen_def setUint8_def
        setUint16_def setUint32_def list_update_Cons_numeral)
qed

lemma unat8_of_nat: "unat (of_nat v :: byte) = v mod 256"
  by (simp add: unat_of_nat)

lemma le32_decode:
  "(v mod 256) + 256 * ((v div 256) mod 256) + 65536 * ((v div 65536) mod 256)
     + 16777216 * ((v div 16777216) mod 256) = (v::nat) mod 4294967296"
proof -
  have a: "v mod 4294967296 = 65536 * (v div 65536 mod 65536) + v mod 65536"
    using mod_mult2_eq [of v 65536 65536] by simp
  have b: "v div 65536 mod 65536 = 256 * (v div 65536 div 256 mod 256) + v div 65536 mod 256"
    using mod_mult2_eq [of "v div 65536" 256 256] by simp
  have c: "v div 65536 div 256 = v div 16777216"
    by (simp add: div_mult2_eq [symmetric])
  have d: "v mod 65536 = 256 * (v div 256 mod 256) + v mod 256"
    using mod_mult2_eq [of v 256 256] by simp
  show ?thesis unfolding a b c d by simp
qed

lemma le16_decode:
  "(v mod 256) + 256 * ((v div 256) mod 256) = (v::nat) mod 65536"
  using mod_mult2_eq [of v 256 256] by simp

lemma getUint16_le16: "length pre = off \<Longrightarrow> getUint16 (pre @ le16 v @ rest) off = v mod 65536"
  by (simp add: getUint16_def le16_def nth_append unat8_of_nat le16_decode)

lemma getUint32_le32: "length pre = off \<Longrightarrow> getUint32 (pre @ le32 v @ rest) off = v mod 4294967296"
  by (simp add: getUint32_def le32_def nth_append unat8_of_nat le32_decode)

lemma clamp_scaled_range:
  "- 32768 \<le> (let s = max (- 1) (min 1 r) in if s < 0 then s * 32768 else s * 32767)
   \<and> (let s = max (- 1) (min 1 r) in if s < 0 then s * 32768 else s * 32767) \<le> (32767::real)"
  by (simp add: Let_def max_def min_def)

lemma js_truncate_range:
  assumes "- 32768 \<le> x" "x \<le> 32767"
  shows "- 32768 \<le> js_truncate x \<and> js_truncate x \<le> 32767"
proof -
  have "\<lceil>x\<rceil> \<le> 32767" using assms(2) by (simp add: ceiling_le_iff)
  moreover have "- 32768 \<le> \<lceil>x\<rceil>" using assms(1) by (simp add: le_ceiling_iff)
  moreover have "\<lfloor>x\<rfloor> \<le> 32767" using assms(2) by (simp add: floor_le_iff)
  moreover have "- 32768 \<le> \<lfloor>x\<rfloor>" using assms(1) by (simp add: le_floor_iff)
  ultimately show ?thesis by (simp add: js_truncate_def)
qed

lemma pcm_value:
  "toInteger (pcmScaled x) =
     (case x of
        NaN \<Rightarrow> 0
      | PosInf \<Rightarrow> 32767
      | NegInf \<Rightarrow> - 32768
      | Finite r \<Rightarrow>
          js_truncate (let s = max (- 1) (min 1 r) in if s < 0 then s * 32768 else s * 32767))"
proof (cases x)
  case (Finite r)
  then show ?thesis
    by (auto simp add: pcmScaled_def toInteger_def Let_def max_def min_def)
qed (simp_all add: pcmScaled_def toInteger_def Let_def js_truncate_def)

lemma js_truncate_pcm_range:
  "- 32768 \<le> toInteger (pcmScaled x) \<and> toInteger (pcmScaled x) \<le> 32767"
proof (cases x)
  case (Finite r)
  then show ?thesis
    using js_truncate_range [OF clamp_scaled_range [of r, THEN conjunct1]
        clamp_scaled_range [of r, THEN conjunct2]]
    by (simp add: pcm_value)
qed (simp_all add: pcm_value)

lemma unat8_of_int: "int (unat (of_int i :: byte)) = i mod 256"
  by (simp add: unat_eq_nat_uint uint_word_of_int take_bit_eq_mod)

lemma uint8_of_int: "uint (of_int i :: byte) = i mod 256"
  by (simp add: uint_word_of_int take_bit_eq_mod)

lemma int16_decode:
  assumes "- 32768 \<le> i" "i \<le> (32767::int)"
  shows "(let u = (i mod 256) + 256 * ((i div 256) mod 256) in if u < 32768 then u else u - 65536) = i"
proof -
  have u: "(i mod 256) + 256 * ((i div 256) mod 256) = i mod 65536"
    using zmod_zmult2_eq [of 256 i 256] by simp
  show ?thesis
  proof (cases "0 \<le> i")
    case True
    then have "i mod 65536 = i" using assms by simp
    then show ?thesis using assms True by (simp add: u Let_def)
  next
    case False
    have e: "(i + 65536) mod 65536 = i + 65536"
      using assms False by (intro mod_pos_pos_trivial) simp_all
    have "(i + 65536) mod 65536 = i mod 65536" by simp
    with e have "i mod 65536 = i + 65536" by simp
    then show ?thesis using assms False by (simp add: u Let_def)
  qed
qed

lemma getInt16_pcmBytes:
  "length pre = off \<Longrightarrow> getInt16 (pre @ pcmBytes x @ rest) off = toInteger (pcmScaled x)"
  using int16_decode [of "toInteger (pcmScaled x)"] js_truncate_pcm_range [of x]
  by (simp add: getInt16_def getUint16_def pcmBytes_def nth_append unat8_of_int uint8_of_int Let_def)

lemma nth_payload:
  "i < length xs \<Longrightarrow>
     \<exists>pre rest. concat (map pcmBytes xs) = pre @ pcmBytes (xs ! i) @ rest \<and> length pre = 2 * i"
proof (induction xs arbitrary: i)
  case Nil
  then show ?case by simp
next
  case (Cons x xs)
  show ?case
  proof (cases i)
    case 0
    then show ?thesis by simp
  next
    case (Suc j)
    with Cons.prems have "j < length xs" by simp
    from Cons.IH [OF this] obtain pre rest
      where "concat (map pcmBytes xs) = pre @ pcmBytes (xs ! j) @ rest" "length pre = 2 * j"
      by blast
    then have "concat (map pcmBytes (x # xs)) = (pcmBytes x @ pre) @ pcmBytes ((x # xs) ! i) @ rest
        \<and> length (pcmBytes x @ pre) = 2 * i"
      using Suc by (simp add: pcmBytes_def)
    then show ?thesis by blast
  qed
qed

lemma getInt16_payload:
  assumes "i < length xs" "length hdr = 44"
  shows "getInt16 (hdr @ concat (map pcmBytes xs)) (44 + 2 * i) = toInteger (pcmScaled (xs ! i))"
proof -
  from nth_payload [OF assms(1)] obtain pre rest
    where eq: "concat (map pcmBytes xs) = pre @ pcmBytes (xs ! i) @ rest" and len: "length pre = 2 * i"
    by blast
  have "getInt16 ((hdr @ pre) @ pcmBytes (xs ! i) @ rest) (44 + 2 * i) = toInteger (pcmScaled (xs ! i))"
    by (rule getInt16_pcmBytes) (simp add: assms(2) len)
  then show ?thesis by (simp add: eq)
qed

lemma length_payload: "length (concat (map pcmBytes xs)) = 2 * length xs"
  by (induction xs) (simp_all add: pcmBytes_def)

text \<open>
  Claim C1, as the code has it. For every sequence of float samples (finite values,
  infinities and NaN) and every sample rate, with one channel, \<open>encodeWav\<close> does not
  throw and returns \<open>44 + 2 * length samples\<close> bytes labelled \<open>audio/wav\<close>. The header
  carries the tags \<open>RIFF\<close>, \<open>WAVE\<close>, \<open>fmt \<close> and \<open>data\<close>, a format chunk of 16
  bytes, format tag 1 (linear PCM), 1 channel, block align \<open>channels * 2 = 2\<close> and 16
  bits per sample. Its 32-bit fields hold the container size, the sample rate, the byte
  rate \<open>sampleRate * blockAlign\<close> and the data size \<open>2 * length samples\<close> reduced modulo
  \<open>2^32\<close> (so the values themselves whenever they are below \<open>2^32\<close>; zero data bytes
  for no samples). Sample \<open>i\<close> is stored at offset \<open>44 + 2 * i\<close> as a little-endian
  signed 16-bit integer: the sample clamped to \<open>[-1, 1]\<close> (an infinity clamps to the
  end of the range), scaled by 32768 when negative and by 32767 otherwise, truncated
  towards zero. The clamp leaves NaN as it is, and NaN is stored as 0.
\<close>

theorem encodeWav_container:
  "\<exists>bytes. encodeWav samples sampleRate 1 = Inr \<lparr>blob_bytes = bytes, blob_type = ''audio/wav''\<rparr>
     \<and> length bytes = 44 + 2 * length samples
     \<and> take 4 bytes = [82, 73, 70, 70]
     \<and> getUint32 bytes 4 = (36 + 2 * length samples) mod 2 ^ 32
     \<and> take 8 (drop 8 bytes) = [87, 65, 86, 69, 102, 109, 116, 32]
     \<and> getUint32 bytes 16 = 16
     \<and> getUint16 bytes 20 = 1
     \<and> getUint16 bytes 22 = 1
     \<and> getUint32 bytes 24 = sampleRate mod 2 ^ 32
     \<and> getUint32 bytes 28 = (sampleRate * getUint16 bytes 32) mod 2 ^ 32
     \<and> getUint16 bytes 32 = 1 * 2
     \<and> getUint16 bytes 34 = 16
     \<and> take 4 (drop 36 bytes) = [100, 97, 116, 97]
     \<and> getUint32 bytes 40 = (2 * length samples) mod 2 ^ 32
     \<and> (\<forall>i < length samples.
           getInt16 bytes (44 + 2 * i) = toInteger (pcmScaled (samples ! i))
           \<and> getInt16 bytes (44 + 2 * i) =
               (case samples ! i of
                  NaN \<Rightarrow> 0
                | PosInf \<Rightarrow> 32767
                | NegInf \<Rightarrow> - 32768
                | Finite r \<Rightarrow>
                    js_truncate (let s = max (- 1) (min 1 r)
                                 in if s < 0 then s * 32768 else s * 32767))
           \<and> - 32768 \<le> getInt16 bytes (44 + 2 * i) \<and> getInt16 bytes (44 + 2 * i) \<le> 32767)"
proof -
  define payload where "payload = concat (map pcmBytes samples)"
  define bytes where "bytes = wavHeader (length samples) sampleRate 1 @ payload"
  have enc: "encodeWav samples sampleRate 1 = Inr \<lparr>blob_bytes = bytes, blob_type = ''audio/wav''\<rparr>"
    by (simp add: encodeWav_closed bytes_def payload_def)
  have len: "length bytes = 44 + 2 * length samples"
    by (simp add: bytes_def payload_def length_wavHeader length_payload)
  have t0: "take 4 bytes = [82, 73, 70, 70]"
    by (simp add: bytes_def wavHeader_def)
  have t8: "take 8 (drop 8 bytes) = [87, 65, 86, 69, 102, 109, 116, 32]"
    by (simp add: bytes_def wavHeader_def le32_def)
  have t36: "take 4 (drop 36 bytes) = [100, 97, 116, 97]"
    by (simp add: bytes_def wavHeader_def le32_def le16_def)
  have f4: "getUint32 bytes 4 = (36 + 2 * length samples) mod 2 ^ 32"
    using getUint32_le32 [of "[82, 73, 70, 70]" 4 "36 + length samples * 2"]
    by (simp add: bytes_def wavHeader_def mult.commute)
  have f16: "getUint32 bytes 16 = 16"
    using getUint32_le32 [of "[82, 73, 70, 70] @ le32 (36 + length samples * 2) @ [87, 65, 86, 69]
        @ [102, 109, 116, 32]" 16 16]
    by (simp add: bytes_def wavHeader_def le32_def)
  have f20: "getUint16 bytes 20 = 1"
    using getUint16_le16 [of "[82, 73, 70, 70] @ le32 (36 + length samples * 2) @ [87, 65, 86, 69]
        @ [102, 109, 116, 32] @ le32 16" 20 1]
    by (simp add: bytes_def wavHeader_def le32_def)
  have f22: "getUint16 bytes 22 = 1"
    using getUint16_le16 [of "[82, 73, 70, 70] @ le32 (36 + length samples * 2) @ [87, 65, 86, 69]
        @ [102, 109, 116, 32] @ le32 16 @ le16 1" 22 1]
    by (simp add: bytes_def wavHeader_def le32_def le16_def)
  have f24: "getUint32 bytes 24 = sampleRate mod 2 ^ 32"
    using getUint32_le32 [of "[82, 73, 70, 70] @ le32 (36 + length samples * 2) @ [87, 65, 86, 69]
        @ [102, 109, 116, 32] @ le32 16 @ le16 1 @ le16 1" 24 sampleRate]
    by (simp add: bytes_def wavHeader_def le32_def le16_def)
  have f28: "getUint32 bytes 28 = (sampleRate * 2) mod 2 ^ 32"
    using getUint32_le32 [of "[82, 73, 70, 70] @ le32 (36 + length samples * 2) @ [87, 65, 86, 69]
        @ [102, 109, 116, 32] @ le32 16 @ le16 1 @ le16 1 @ le32 sampleRate" 28 "sampleRate * 2"]
    by (simp add: bytes_def wavHeader_def le32_def le16_def)
  have f32: "getUint16 bytes 32 = 2"
    using getUint16_le16 [of "[82, 73, 70, 70] @ le32 (36 + length samples * 2) @ [87, 65, 86, 69]
        @ [102, 109, 116, 32] @ le32 16 @ le16 1 @ le16 1 @ le32 sampleRate
        @ le32 (sampleRate * 2)" 32 2]
    by (simp add: bytes_def wavHeader_def le32_def le16_def)
  have f34: "getUint16 bytes 34 = 16"
    using getUint16_le16 [of "[82, 73, 70, 70] @ le32 (36 + length samples * 2) @ [87, 65, 86, 69]
        @ [102, 109, 116, 32] @ le32 16 @ le16 1 @ le16 1 @ le32 sampleRate
        @ le32 (sampleRate * 2) @ le16 2" 34 16]
    by (simp add: bytes_def wavHeader_def le32_def le16_def)
  have f40: "getUint32 bytes 40 = (2 * length samples) mod 2 ^ 32"
    using getUint32_le32 [of "[82, 73, 70, 70] @ le32 (36 + length samples * 2) @ [87, 65, 86, 69]
        @ [102, 109, 116, 32] @ le32 16 @ le16 1 @ le16 1 @ le32 sampleRate
        @ le32 (sampleRate * 2) @ le16 2 @ le16 16 @ [100, 97, 116, 97]" 40 "length samples * 2"]
    by (simp add: bytes_def wavHeader_def le32_def le16_def mult.commute)
  have smp: "getInt16 bytes (44 + 2 * i) = toInteger (pcmScaled (samples ! i))"
    if "i < length samples" for i
    unfolding bytes_def payload_def using that by (rule getInt16_payload) (rule length_wavHeader)
  have val: "getInt16 bytes (44 + 2 * i) =
               (case samples ! i of
                  NaN \<Rightarrow> 0
                | PosInf \<Rightarrow> 32767
                | NegInf \<Rightarrow> - 32768
                | Finite r \<Rightarrow>
                    js_truncate (let s = max (- 1) (min 1 r)
                                 in if s < 0 then s * 32768 else s * 32767))"
    if "i < length samples" for i
    using smp [OF that] by (simp only: pcm_value)
  have rng: "- 32768 \<le> getInt16 bytes (44 + 2 * i) \<and> getInt16 bytes (44 + 2 * i) \<le> 32767"
    if "i < length samples" for i
    using smp [OF that] js_truncate_pcm_range [of "samples ! i"] by simp
  have all: "\<forall>i < length samples.
           getInt16 bytes (44 + 2 * i) = toInteger (pcmScaled (samples ! i))
           \<and> getInt16 bytes (44 + 2 * i) =
               (case samples ! i of
                  NaN \<Rightarrow> 0
                | PosInf \<Rightarrow> 32767
                | NegInf \<Rightarrow> - 32768
                | Finite r \<Rightarrow>
                    js_truncate (let s = max (- 1) (min 1 r)
                                 in if s < 0 then s * 32768 else s * 32767))
           \<and> - 32768 \<le> getInt16 bytes (44 + 2 * i) \<and> getInt16 bytes (44 + 2 * i) \<le> 32767"
    using smp val rng by blast
  have f32': "getUint16 bytes 32 = 1 * 2"
    using f32 by simp
  have f28': "getUint32 bytes 28 = (sampleRate * getUint16 bytes 32) mod 2 ^ 32"
    using f28 f32 by simp
  show ?thesis
    by (intro exI [of _ bytes] conjI)
      (fact enc len t0 t8 t36 f4 f16 f20 f22 f24 f28' f32' f34 f40 all)+
qed

text \<open>
  Claim C1, witness: at 44100 Hz, a sample inside the range, one on its lower end, one
  above it, a negative one whose product is not an integer (truncation towards zero gives
  -10922, rounding down would give -10923), NaN and the two infinities.
\<close>

theorem encodeWav_container_witness:
  "\<exists>bytes. encodeWav [Finite (1 / 2), Finite (- 1), Finite 2, Finite (- 1 / 3), NaN, PosInf, NegInf]
              44100 1
            = Inr \<lparr>blob_bytes = bytes, blob_type = ''audio/wav''\<rparr>
     \<and> length bytes = 58
     \<and> getUint32 bytes 24 = 44100
     \<and> getUint32 bytes 28 = 88200
     \<and> getUint32 bytes 40 = 14
     \<and> getInt16 bytes 44 = 16383
     \<and> getInt16 bytes 46 = - 32768
     \<and> getInt16 bytes 48 = 32767
     \<and> getInt16 bytes 50 = - 10922
     \<and> getInt16 bytes 52 = 0
     \<and> getInt16 bytes 54 = 32767
     \<and> getInt16 bytes 56 = - 32768"
proof -
  define xs where
    "xs = [Finite (1 / 2), Finite (- 1), Finite 2, Finite (- 1 / 3), NaN, PosInf, NegInf]"
  from encodeWav_container [of xs 44100] obtain bytes where
    b: "encodeWav xs 44100 1 = Inr \<lparr>blob_bytes = bytes, blob_type = ''audio/wav''\<rparr>"
      "length bytes = 44 + 2 * length xs"
      "getUint32 bytes 24 = 44100 mod 2 ^ 32"
      "getUint16 bytes 32 = 1 * 2"
      "getUint32 bytes 28 = (44100 * getUint16 bytes 32) mod 2 ^ 32"
      "getUint32 bytes 40 = (2 * length xs) mod 2 ^ 32"
    and s: "\<forall>i < length xs.
           getInt16 bytes (44 + 2 * i) = toInteger (pcmScaled (xs ! i))
           \<and> getInt16 bytes (44 + 2 * i) =
               (case xs ! i of
                  NaN \<Rightarrow> 0
                | PosInf \<Rightarrow> 32767
                | NegInf \<Rightarrow> - 32768
                | Finite r \<Rightarrow>
                    js_truncate (let s = max (- 1) (min 1 r)
                                 in if s < 0 then s * 32768 else s * 32767))
           \<and> - 32768 \<le> getInt16 bytes (44 + 2 * i) \<and> getInt16 bytes (44 + 2 * i) \<le> 32767"
    by blast
  have s0: "getInt16 bytes 44 = 16383"
    using s [rule_format, of 0] by (simp add: xs_def js_truncate_def)
  have s1: "getInt16 bytes 46 = - 32768"
    using s [rule_format, of 1] by (simp add: xs_def js_truncate_def)
  have s2: "getInt16 bytes 48 = 32767"
    using s [rule_format, of 2] by (simp add: xs_def js_truncate_def)
  have s3: "getInt16 bytes 50 = - 10922"
    using s [rule_format, of 3] by (simp add: xs_def js_truncate_def)
  have s4: "getInt16 bytes 52 = 0"
    using s [rule_format, of 4] by (simp add: xs_def)
  have s5: "getInt16 bytes 54 = 32767"
    using s [rule_format, of 5] by (simp add: xs_def)
  have s6: "getInt16 bytes 56 = - 32768"
    using s [rule_format, of 6] by (simp add: xs_def)
  show ?thesis
    apply (rule exI [of _ bytes])
    using b s0 s1 s2 s3 s4 s5 s6 by (simp add: xs_def)
qed

text \<open>
  Claim C1 as stated fails in two places. The header does not declare every positive
  sample rate: at \<open>sampleRate = 2^32\<close> bytes 24 to 27 are zero, so it declares the sample
  rate 0 (and the byte rate 0). And not every sample is clamped to \<open>[-1, 1]\<close>: the clamp
  of NaN is NaN, which lies in no range, and the two bytes written for it are zero.
\<close>

theorem encodeWav_sampleRate_counterexample:
  "encodeWav [] 4294967296 1 =
     Inr \<lparr>blob_bytes = [82, 73, 70, 70, 36, 0, 0, 0, 87, 65, 86, 69, 102, 109, 116, 32,
                        16, 0, 0, 0, 1, 0, 1, 0, 0, 0, 0, 0, 0, 0, 0, 0, 2, 0, 16, 0,
                        100, 97, 116, 97, 0, 0, 0, 0],
            blob_type = ''audio/wav''\<rparr>
   \<and> getUint32 [82, 73, 70, 70, 36, 0, 0, 0, 87, 65, 86, 69, 102, 109, 116, 32,
                  16, 0, 0, 0, 1, 0, 1, 0, 0, 0, 0, 0, 0, 0, 0, 0, 2, 0, 16, 0,
                  100, 97, 116, 97, 0, 0, 0, 0] 24 = 0
   \<and> mathMax (Finite (- 1)) (mathMin (Finite 1) NaN) = NaN
   \<and> encodeWav [NaN] 44100 1 =
     Inr \<lparr>blob_bytes = [82, 73, 70, 70, 38, 0, 0, 0, 87, 65, 86, 69, 102, 109, 116, 32,
                        16, 0, 0, 0, 1, 0, 1, 0, 68, 172, 0, 0, 136, 88, 1, 0, 2, 0, 16, 0,
                        100, 97, 116, 97, 2, 0, 0, 0, 0, 0],
            blob_type = ''audio/wav''\<rparr>"
  by (simp add: encodeWav_closed wavHeader_def le16_def le32_def getUint32_def pcmBytes_def
      pcmScaled_def toInteger_def)
section \<open>Properties of the ConversationStore\<close>


lemma convKey_inj: "convKey i = convKey j \<longleftrightarrow> i = j"
  by (simp add: convKey_def)















lemma getIndex_setIndex: "getIndex (setIndex ls index) = index"
  by (simp add: getIndex_def setIndex_def safeJsonParse_def)












text \<open>
  Claim C7, as the code has it. \<open>list\<close> cannot throw; it returns the stored array when
  the index value is the JSON text of an array, and the empty sequence when the value is
  missing, is not JSON or is JSON of another kind. \<open>get\<close> cannot throw; it returns
  \<open>null\<close> when nothing is stored under the id, when the stored text is not JSON, and
  when it is JSON for \<open>null\<close>, a boolean, a number or a string; it returns every stored
  array and every stored object as it is, whatever fields the object has.
\<close>

theorem list_get_degrade:
  "(ls INDEX_KEY = None \<longrightarrow> list_conversations ls = [])
   \<and> (\<forall>s. ls INDEX_KEY = Some (NotJson s) \<longrightarrow> list_conversations ls = [])
   \<and> (\<forall>v. ls INDEX_KEY = Some (Json v) \<and> (\<forall>es. v \<noteq> VArray es) \<longrightarrow> list_conversations ls = [])
   \<and> (\<forall>es. ls INDEX_KEY = Some (Json (VArray es)) \<longrightarrow> list_conversations ls = es)
   \<and> (ls (convKey ident) = None \<longrightarrow> get_conversation ls ident = None)
   \<and> (\<forall>s. ls (convKey ident) = Some (NotJson s) \<longrightarrow> get_conversation ls ident = None)
   \<and> (\<forall>v. ls (convKey ident) = Some (Json v) \<and> (\<forall>es. v \<noteq> VArray es) \<and> (\<forall>c. v \<noteq> VObject c)
          \<longrightarrow> get_conversation ls ident = None)
   \<and> (\<forall>es. ls (convKey ident) = Some (Json (VArray es))
          \<longrightarrow> get_conversation ls ident = Some (VArray es))
   \<and> (\<forall>c. ls (convKey ident) = Some (Json (VObject c))
          \<longrightarrow> get_conversation ls ident = Some (VObject c))"
proof -
  have l: "list_conversations ls = (case ls INDEX_KEY of Some (Json (VArray es)) \<Rightarrow> es | _ \<Rightarrow> [])"
    by (simp add: list_conversations_def getIndex_def safeJsonParse_def
        split: option.splits stored.splits jsval.splits)
  have g: "get_conversation ls ident =
             (case ls (convKey ident) of
                Some (Json (VArray es)) \<Rightarrow> Some (VArray es)
              | Some (Json (VObject c)) \<Rightarrow> Some (VObject c)
              | _ \<Rightarrow> None)"
    by (simp add: get_conversation_def safeJsonParse_def truthyValue_def typeofObject_def
        split: option.splits stored.splits jsval.splits)
  show ?thesis
    unfolding l g by (auto split: jsval.splits)
qed

text \<open>
  Claim C7, witness: a store whose index value is an object, with a conversation key
  holding text that is not JSON, one holding a number, one holding a conversation, and
  one key missing.
\<close>

theorem list_get_degrade_witness:
  "list_conversations storeCorrupt = []
   \<and> list_conversations storeW = [entryW1, entryW2]
   \<and> get_conversation storeCorrupt ''a'' = None
   \<and> get_conversation storeCorrupt ''b'' = None
   \<and> get_conversation storeCorrupt ''zz'' = None
   \<and> get_conversation storeCorrupt ''c'' = Some (VObject convW)"
proof -
  have k: "storeCorrupt INDEX_KEY = Some (Json (VObject emptyObject))"
      "storeCorrupt (convKey ''a'') = Some (NotJson ''{oops'')"
      "storeCorrupt (convKey ''b'') = Some (Json (VNum 7))"
      "storeCorrupt (convKey ''zz'') = None"
      "storeCorrupt (convKey ''c'') = Some (Json (VObject convW))"
    by (simp_all add: storeCorrupt_def convKey_def CONV_PREFIX_def INDEX_KEY_def)
  have w: "storeW INDEX_KEY = Some (Json (VArray [entryW1, entryW2]))"
    by (simp add: storeW_def)
  show ?thesis
    using list_get_degrade [of storeCorrupt "''a''"] list_get_degrade [of storeCorrupt "''b''"]
      list_get_degrade [of storeCorrupt "''zz''"] list_get_degrade [of storeCorrupt "''c''"]
      list_get_degrade [of storeW "''c''"] k w
    by simp
qed

text \<open>
  Claim C7 as stated (\<open>get\<close> returns absent when the stored payload is not a well-formed
  record) fails: a stored array and a stored object without any field are returned.
\<close>

theorem get_array_counterexample:
  "get_conversation [convKey ''c1'' \<mapsto> Json (VArray [])] ''c1'' = Some (VArray [])
   \<and> \<not> wellFormedRecord (VArray [])
   \<and> get_conversation [convKey ''c1'' \<mapsto> Json (VObject emptyObject)] ''c1''
       = Some (VObject emptyObject)
   \<and> \<not> wellFormedRecord (VObject emptyObject)"
  by (simp add: get_conversation_def safeJsonParse_def truthyValue_def typeofObject_def
      wellFormedRecord_def emptyObject_def)

section \<open>Properties of the streaming reader\<close>










lemma foldl_record:
  "foldl (\<lambda>s ev. snd (None, s @ [(f ev, ev)])) acc evs = acc @ map (\<lambda>ev. (f ev, ev)) evs"
  by (induction evs arbitrary: acc) simp_all





section \<open>Properties of the event handlers\<close>

text \<open>
  All an event handler does to the message log is to rewrite its last message, and the
  rewriting leaves the fields the event does not own as they are.
\<close>

lemma mapLast_id: "mapLast (\<lambda>x. x) xs = xs"
  by (simp add: mapLast_def)

lemma map_option_mapLast_id: "map_option (mapLast (\<lambda>x. x)) v = v"
  by (cases v) (simp_all add: mapLast_id)

lemma butlast_mapLast: "butlast (mapLast g xs) = butlast xs"
  by (simp add: mapLast_def)

lemma updateLastMessage_log:
  "messageLog (snd (updateLastMessage pf assign flag st)) =
     map_option (mapLast (touch assign flag)) (messageLog st)"
  by (simp add: updateLastMessage_def messageLog_def commit_def touch_def Let_def mapLast_def
      split: option.splits prod.splits sum.splits)

lemma thenDo_set_log:
  "messageLog (snd (thenDo r (\<lambda>s. (None, s\<lparr>pendingClarification := p, isLoading := b\<rparr>))))
     = messageLog (snd r)"
  by (cases r) (simp add: thenDo_def messageLog_def split: option.splits)

lemma updateTitle_log:
  "messageLog (snd (updateTitle pf ev st)) = messageLog st"
  by (simp add: updateTitle_def messageLog_def commit_def split: option.splits prod.splits sum.splits)

lemma messageLog_flags:
  "messageLog (st\<lparr>isLoading := a\<rparr>) = messageLog st"
  "messageLog (st\<lparr>isLoading := a, originalQuery := b, conversations := c\<rparr>) = messageLog st"
  by (simp_all add: messageLog_def)

lemma onEvent_log:
  "messageLog (snd (onEvent pf ty ev st)) = map_option (mapLast (reducer ty ev)) (messageLog st)"
  unfolding onEvent_def reducer_def
  by (simp add: updateLastMessage_log thenDo_set_log updateTitle_log map_option_mapLast_id
      messageLog_flags)

lemma reducer_frame:
  assumes "f \<notin> ownFields ty"
  shows "fieldValue f (reducer ty ev m) = fieldValue f m"
  using assms unfolding reducer_def ownFields_def
  by (cases f) (auto simp: touch_def split: if_splits option.splits)

lemma onEvent_earlier:
  "map_option butlast (messageLog (snd (onEvent pf ty ev st))) = map_option butlast (messageLog st)"
  by (cases "messageLog st") (simp_all add: onEvent_log butlast_mapLast)

lemma onEvent_last:
  "lastMessage (snd (onEvent pf ty ev st)) = map_option (reducer ty ev) (lastMessage st)"
  by (cases "messageLog st") (simp_all add: lastMessage_def onEvent_log mapLast_def)

lemma onEvent_frame:
  assumes "f \<notin> ownFields ty"
  shows "map_option (fieldValue f) (lastMessage (snd (onEvent pf ty ev st)))
           = map_option (fieldValue f) (lastMessage st)"
  by (cases "lastMessage st") (simp_all add: onEvent_last reducer_frame [OF assms])

lemma events_frame:
  assumes "\<forall>ev \<in> set evs. f \<notin> ownFields (propertyOf ev ''type'')"
  shows "map_option (fieldValue f)
           (lastMessage (foldl (\<lambda>s ev. snd (onEvent pf (propertyOf ev ''type'') ev s)) st evs))
         = map_option (fieldValue f) (lastMessage st)"
  using assms
proof (induction evs arbitrary: st)
  case Nil
  then show ?case by simp
next
  case (Cons ev evs)
  have a: "f \<notin> ownFields (propertyOf ev ''type'')" using Cons.prems by simp
  have b: "\<forall>ev \<in> set evs. f \<notin> ownFields (propertyOf ev ''type'')" using Cons.prems by simp
  show ?case
    using Cons.IH [OF b, of "snd (onEvent pf (propertyOf ev ''type'') ev st)"]
      onEvent_frame [OF a, of pf ev st]
    by simp
qed

lemma events_earlier:
  "map_option butlast
     (messageLog (foldl (\<lambda>s ev. snd (onEvent pf (propertyOf ev ''type'') ev s)) st evs))
   = map_option butlast (messageLog st)"
proof (induction evs arbitrary: st)
  case Nil
  then show ?case by simp
next
  case (Cons ev evs)
  show ?case
    using Cons.IH [of "snd (onEvent pf (propertyOf ev ''type'') ev st)"]
      onEvent_earlier [of pf "propertyOf ev ''type''" ev st]
    by simp
qed

text \<open>
  Claim C8. For every state, every event and every type \<open>eventType\<close>, of the vocabulary or
  not: the handler leaves every message before the last one as it is, and it leaves as it
  is every field of the last message that the event type does not own (\<open>stage2_complete\<close>
  owns \<open>stage2\<close>, \<open>metadata\<close> and \<open>loading.stage2\<close>). The same holds for the events of a
  stream in whatever order they come: a field that none of them owns has at the end the
  value it had at the start.
\<close>

theorem event_frame:
  "map_option butlast (messageLog (snd (onEvent pf eventType event st)))
     = map_option butlast (messageLog st)
   \<and> (f \<notin> ownFields eventType \<longrightarrow>
        map_option (fieldValue f) (lastMessage (snd (onEvent pf eventType event st)))
          = map_option (fieldValue f) (lastMessage st))
   \<and> map_option butlast
       (messageLog (foldl (\<lambda>s ev. snd (onEvent pf (propertyOf ev ''type'') ev s)) st evs))
     = map_option butlast (messageLog st)
   \<and> ((\<forall>ev \<in> set evs. f \<notin> ownFields (propertyOf ev ''type'')) \<longrightarrow>
        map_option (fieldValue f)
          (lastMessage (foldl (\<lambda>s ev. snd (onEvent pf (propertyOf ev ''type'') ev s)) st evs))
        = map_option (fieldValue f) (lastMessage st))"
  using onEvent_earlier [of pf eventType event st] onEvent_frame [of f eventType pf event st]
    events_earlier [of pf st evs] events_frame [of evs f pf st]
  by blast

text \<open>
  Claim C8, witness: \<open>stage2_complete\<close> arrives before any event of stage 1. The user
  message and the fields \<open>stage1\<close> and \<open>loading.stage1\<close> of the assistant message are as
  before, while \<open>stage2\<close> and \<open>metadata\<close> have the payloads of the event.
\<close>

theorem event_frame_witness:
  "Stage1 \<notin> ownFields (Some (JStr ''stage2_complete''))
   \<and> LoadingStage1 \<notin> ownFields (propertyOf eventStage2 ''type'')
   \<and> map_option butlast
       (messageLog (snd (onEvent platformW (Some (JStr ''stage2_complete'')) eventStage2 stateOpen)))
     = Some [userMessage ''What is 2+2?'']
   \<and> map_option (fieldValue Stage1)
       (lastMessage (snd (onEvent platformW (Some (JStr ''stage2_complete'')) eventStage2 stateOpen)))
     = Some (Payload (Some JNull))
   \<and> map_option (fieldValue LoadingStage1)
       (lastMessage (foldl (\<lambda>s ev. snd (onEvent platformW (propertyOf ev ''type'') ev s))
          stateOpen [eventStage2]))
     = Some (Flag (Some False))
   \<and> map_option (fieldValue Stage2)
       (lastMessage (snd (onEvent platformW (Some (JStr ''stage2_complete'')) eventStage2 stateOpen)))
     = Some (Payload (Some (JArr [JNum 1])))
   \<and> map_option (fieldValue Metadata)
       (lastMessage (snd (onEvent platformW (Some (JStr ''stage2_complete'')) eventStage2 stateOpen)))
     = Some (Payload (Some (JObj [(''m'', JNum 2)])))"
proof -
  have l: "messageLog stateOpen = Some [userMessage ''What is 2+2?'', assistantMessage]"
    by (simp add: messageLog_def stateOpen_def)
  have m: "lastMessage stateOpen = Some assistantMessage"
    by (simp add: lastMessage_def l)
  have t: "propertyOf eventStage2 ''type'' = Some (JStr ''stage2_complete'')"
    by (simp add: propertyOf_def eventStage2_def)
  have o: "Stage1 \<notin> ownFields (Some (JStr ''stage2_complete''))"
      "LoadingStage1 \<notin> ownFields (Some (JStr ''stage2_complete''))"
    by (simp_all add: ownFields_def)
  have r: "reducer (Some (JStr ''stage2_complete'')) eventStage2 assistantMessage
      = assistantMessage\<lparr>m_stage2 := Some (JArr [JNum 1]),
                          m_metadata := Some (JObj [(''m'', JNum 2)])\<rparr>"
    by (simp add: reducer_def touch_def assistantMessage_def propertyOf_def eventStage2_def)
  have a1: "map_option butlast
       (messageLog (snd (onEvent platformW (Some (JStr ''stage2_complete'')) eventStage2 stateOpen)))
     = Some [userMessage ''What is 2+2?'']"
    using event_frame [of platformW "Some (JStr ''stage2_complete'')" eventStage2 stateOpen Stage1
        "[eventStage2]"]
    by (simp add: l)
  have a2: "map_option (fieldValue Stage1)
       (lastMessage (snd (onEvent platformW (Some (JStr ''stage2_complete'')) eventStage2 stateOpen)))
     = Some (Payload (Some JNull))"
    using event_frame [of platformW "Some (JStr ''stage2_complete'')" eventStage2 stateOpen Stage1
        "[eventStage2]"] o
    by (simp add: m assistantMessage_def)
  have a3: "map_option (fieldValue LoadingStage1)
       (lastMessage (foldl (\<lambda>s ev. snd (onEvent platformW (propertyOf ev ''type'') ev s))
          stateOpen [eventStage2]))
     = Some (Flag (Some False))"
    using event_frame [of platformW "Some (JStr ''stage2_complete'')" eventStage2 stateOpen
        LoadingStage1 "[eventStage2]"] o
    by (simp add: m t assistantMessage_def)
  have a4: "map_option (fieldValue Stage2)
       (lastMessage (snd (onEvent platformW (Some (JStr ''stage2_complete'')) eventStage2 stateOpen)))
     = Some (Payload (Some (JArr [JNum 1])))"
    by (simp add: onEvent_last m r)
  have a5: "map_option (fieldValue Metadata)
       (lastMessage (snd (onEvent platformW (Some (JStr ''stage2_complete'')) eventStage2 stateOpen)))
     = Some (Payload (Some (JObj [(''m'', JNum 2)])))"
    by (simp add: onEvent_last m r)
  show ?thesis
    using o t a1 a2 a3 a4 a5 by simp
qed
end
